theory Spec2Isabelle
  imports Complex_Main "HOL-Library.Word"
begin

unbundle bit_operations_syntax

section \<open>Audio frame encoder (services/geminiService: \<open>createBlob\<close>, \<open>encode\<close>)\<close>

subsection \<open>Numbers and the typed-array store conversion\<close>

text \<open>
  An element of a \<open>Float32Array\<close> is a single-precision float: a finite value (a dyadic
  rational), a NaN or an infinity. The product \<open>data[i] * 32768\<close> is computed in double
  precision; scaling a single-precision value by \<open>2 ^ 15\<close> is exact there (the 24-bit
  significand fits, the exponent stays in range), so on finite samples the product is the
  real product. Negative zero behaves as zero in everything below.
\<close>

datatype number = Finite real | NaN | PosInfinity | NegInfinity

fun times_number :: "number \<Rightarrow> real \<Rightarrow> number" where
  "times_number (Finite x) k = Finite (x * k)"
| "times_number NaN k = NaN"
| "times_number PosInfinity k = (if k = 0 then NaN else if 0 < k then PosInfinity else NegInfinity)"
| "times_number NegInfinity k = (if k = 0 then NaN else if 0 < k then NegInfinity else PosInfinity)"

text \<open>ECMAScript \<open>truncate\<close>: drop the fractional part, towards zero.\<close>

definition js_truncate :: "real \<Rightarrow> int" where
  "js_truncate x = (if x < 0 then - \<lfloor>- x\<rfloor> else \<lfloor>x\<rfloor>)"

text \<open>
  Storing a number into an \<open>Int16Array\<close> element applies ECMAScript \<open>ToInt16\<close>: NaN and the
  infinities become 0, any other value is truncated and taken modulo \<open>2 ^ 16\<close>, read as two's
  complement. \<open>word_of_int\<close> is the reduction modulo \<open>2 ^ 16\<close> and \<open>sint\<close> the signed reading.
\<close>

fun ToInt16 :: "number \<Rightarrow> 16 word" where
  "ToInt16 (Finite x) = word_of_int (js_truncate x)"
| "ToInt16 NaN = 0"
| "ToInt16 PosInfinity = 0"
| "ToInt16 NegInfinity = 0"

subsection \<open>\<open>createBlob\<close>: the conversion loop\<close>

text \<open>
  \<^verbatim>\<open>
  const l = data.length;
  const int16 = new Int16Array(l);
  for (let i = 0; i < l; i++) { int16[i] = data[i] * 32768; }
  \<close>
  The loop runs over both buffers: it reads \<open>data\<close> and writes \<open>int16\<close>. The state carries
  the two buffers, so what the loop does to each of them is a fact about the model.
\<close>

record buffers =
  data :: "number list"
  int16 :: "16 word list"

function createBlob_loop :: "nat \<Rightarrow> nat \<Rightarrow> buffers \<Rightarrow> buffers" where
  "createBlob_loop l i b =
     (if i < l
      then createBlob_loop l (Suc i) (b\<lparr>int16 := (int16 b)[i := ToInt16 (times_number (data b ! i) 32768)]\<rparr>)
      else b)"
  by pat_completeness auto
termination
  by (relation "measure (\<lambda>(l, i, b). l - i)") auto

declare createBlob_loop.simps [simp del]

text \<open>
  \<open>new Uint8Array(int16.buffer)\<close> is a byte view of the same storage. Typed arrays use the
  byte order of the platform, little-endian on the platforms that run this application (and
  the order the remote endpoint's \<open>audio/pcm\<close> format expects): low byte first.
\<close>

definition int16_bytes :: "16 word \<Rightarrow> 8 word list" where
  "int16_bytes w = [ucast w, ucast (drop_bit 8 w)]"

definition Uint8Array_of_buffer :: "16 word list \<Rightarrow> 8 word list" where
  "Uint8Array_of_buffer ws = concat (map int16_bytes ws)"

subsection \<open>\<open>encode\<close>: bytes to a binary string, then \<open>btoa\<close>\<close>

text \<open>
  \<^verbatim>\<open>
  let binary = '';
  const len = bytes.byteLength;
  for (let i = 0; i < len; i++) { binary += String.fromCharCode(bytes[i]); }
  return btoa(binary);
  \<close>
  \<open>String.fromCharCode\<close> of a byte is the code unit with that value; a HOL \<open>char\<close> is one
  byte, so the binary string is a \<open>string\<close> and \<open>btoa\<close> never meets a code unit above 255
  (where it would raise).
\<close>

definition fromCharCode :: "8 word \<Rightarrow> char" where
  "fromCharCode b = char_of (unat b)"

function encode_loop :: "8 word list \<Rightarrow> nat \<Rightarrow> nat \<Rightarrow> string \<Rightarrow> string" where
  "encode_loop bytes len i binary =
     (if i < len then encode_loop bytes len (Suc i) (binary @ [fromCharCode (bytes ! i)]) else binary)"
  by pat_completeness auto
termination
  by (relation "measure (\<lambda>(bytes, len, i, binary). len - i)") auto

declare encode_loop.simps [simp del]

text \<open>
  \<open>btoa\<close> is the browser's base64 encoder (RFC 4648, with \<open>=\<close> padding): three bytes become
  four characters of the alphabet below, a last group of one or two bytes is padded.
\<close>

definition b64_alphabet :: string where
  "b64_alphabet = ''ABCDEFGHIJKLMNOPQRSTUVWXYZabcdefghijklmnopqrstuvwxyz0123456789+/''"

definition b64_char :: "nat \<Rightarrow> char" where
  "b64_char n = b64_alphabet ! n"

fun btoa :: "string \<Rightarrow> string" where
  "btoa [] = []"
| "btoa [a] =
     (let x = (of_char a :: nat)
      in [b64_char (x div 4), b64_char ((x mod 4) * 16), CHR ''='', CHR ''=''])"
| "btoa [a, b] =
     (let x = (of_char a :: nat); y = (of_char b :: nat)
      in [b64_char (x div 4), b64_char ((x mod 4) * 16 + y div 16),
          b64_char ((y mod 16) * 4), CHR ''=''])"
| "btoa (a # b # c # rest) =
     (let x = (of_char a :: nat); y = (of_char b :: nat); z = (of_char c :: nat)
      in [b64_char (x div 4), b64_char ((x mod 4) * 16 + y div 16),
          b64_char ((y mod 16) * 4 + z div 64), b64_char (z mod 64)] @ btoa rest)"

definition encode :: "8 word list \<Rightarrow> string" where
  "encode bytes = btoa (encode_loop bytes (length bytes) 0 [])"

subsection \<open>\<open>createBlob\<close>\<close>

record blob =
  blob_data :: string
  mimeType :: string

text \<open>
  \<open>new Int16Array(l)\<close> is zero-filled. The function returns the chunk; the model returns with
  it the input buffer as the call leaves it.
\<close>

definition createBlob_buffers :: "number list \<Rightarrow> buffers" where
  "createBlob_buffers d =
     (let l = length d in createBlob_loop l 0 \<lparr>data = d, int16 = replicate l 0\<rparr>)"

definition createBlob_run :: "number list \<Rightarrow> blob \<times> number list" where
  "createBlob_run d =
     (let b = createBlob_buffers d
      in (\<lparr>blob_data = encode (Uint8Array_of_buffer (int16 b)),
           mimeType = ''audio/pcm;rate=16000''\<rparr>, data b))"

definition createBlob :: "number list \<Rightarrow> blob" where
  "createBlob d = fst (createBlob_run d)"

subsection \<open>Decoding a chunk (the round-trip check of the specification)\<close>

text \<open>
  The receiving side, as the specification words it: base64-decode the chunk's data and read
  the bytes as little-endian signed 16-bit integers. The decoder is the inverse table of
  RFC 4648 on padded input; \<open>None\<close> is a malformed input.
\<close>

fun index_of :: "'a \<Rightarrow> 'a list \<Rightarrow> nat option" where
  "index_of c [] = None"
| "index_of c (x # xs) = (if c = x then Some 0 else map_option Suc (index_of c xs))"

definition b64_index :: "char \<Rightarrow> nat option" where
  "b64_index c = index_of c b64_alphabet"

definition decode_group :: "char \<Rightarrow> char \<Rightarrow> char \<Rightarrow> char \<Rightarrow> nat \<Rightarrow> string option" where
  "decode_group a b c d n =
     (case (b64_index a, b64_index b, b64_index c, b64_index d) of
        (Some p, Some q, Some r, Some t) \<Rightarrow>
          Some (take n [char_of (p * 4 + q div 16), char_of ((q mod 16) * 16 + r div 4),
                        char_of ((r mod 4) * 64 + t)])
      | _ \<Rightarrow> None)"

fun base64_decode :: "string \<Rightarrow> string option" where
  "base64_decode (a # b # c # d # rest) =
     (if rest = [] \<and> d = CHR ''='' then
        (if c = CHR ''='' then decode_group a b CHR ''A'' CHR ''A'' 1
         else decode_group a b c CHR ''A'' 2)
      else (case decode_group a b c d 3 of
              None \<Rightarrow> None
            | Some xs \<Rightarrow> map_option ((@) xs) (base64_decode rest)))"
| "base64_decode [] = Some []"
| "base64_decode _ = None"

definition charCodeAt :: "char \<Rightarrow> 8 word" where
  "charCodeAt c = word_of_nat (of_char c)"

fun int16_of_bytes :: "8 word list \<Rightarrow> 16 word list option" where
  "int16_of_bytes [] = Some []"
| "int16_of_bytes [lo] = None"
| "int16_of_bytes (lo # hi # rest) =
     map_option ((#) (ucast lo OR push_bit 8 (ucast hi))) (int16_of_bytes rest)"

definition decode_chunk :: "blob \<Rightarrow> 16 word list option" where
  "decode_chunk b =
     (case base64_decode (blob_data b) of
        None \<Rightarrow> None
      | Some binary \<Rightarrow> int16_of_bytes (map charCodeAt binary))"

section \<open>The page: live transcriber, event loop, accumulator and capture controls\<close>

subsection \<open>State\<close>

text \<open>
  \<open>LiveTranscriber\<close> passes two callbacks to \<open>sessionPromise.then\<close>:
  \<open>session => session.sendRealtimeInput({ media: pcmBlob })\<close> in the audio callback and
  \<open>session => session.close()\<close> in \<open>stop\<close>. A promise is pending (with the reactions
  registered on it, in order), fulfilled with a session, or rejected. The session a promise
  is fulfilled with is identified with the promise; its status is what the remote service
  and \<open>close\<close> have made of it.
\<close>

datatype reaction = SendRealtimeInput blob | CloseSession

datatype session_status = Open | Errored | Closed

datatype promise_state = Pending "reaction list" | Fulfilled session_status | Rejected

text \<open>What the code does to the world outside it, in the order it does it.\<close>

datatype effect =
    LiveConnect nat
  | RegisterAudioCallback
  | Disconnect
  | ContextClose
  | SendRealtimeInputCall nat blob
  | SessionCloseCall nat
  | UnhandledRejection nat
  | OnUpdate string

datatype VideoSourceType = Upload | Url | Youtube | Record

record VideoData =
  video_id :: string
  sourceType :: VideoSourceType

text \<open>
  One record holds the state the live-transcription code reads and writes: the fields of the
  \<open>LiveTranscriber\<close> instance (a reference is the address of the promise in \<open>heap\<close>; the
  two Web Audio objects are modelled by whether the field is non-null), the promise store and
  the microtask queue of the runtime, the trace of effects, the \<open>App\<close> state
  (\<open>liveText\<close>, \<open>video\<close>, \<open>currentVideoIdRef\<close>, \<open>analysis.isLoading\<close>) and the
  \<open>VideoUploader\<close> state (\<open>transcriberRef\<close>: whether the ref holds the instance,
  \<open>uploaderError\<close> for its \<open>error\<close>, \<open>isRecording\<close>, \<open>isLivePlayback\<close>). The controls
  create a new instance per capture and hold at most one.
\<close>

record world =
  sessionPromise :: "nat option"
  inputAudioContext :: bool
  scriptProcessor :: bool
  heap :: "promise_state list"
  jobs :: "(nat \<times> reaction) list"
  trace :: "effect list"
  liveText :: string
  video :: "VideoData option"
  currentVideoIdRef :: "string option"
  isLoading :: bool
  transcriberRef :: bool
  uploaderError :: "string option"
  isRecording :: bool
  isLivePlayback :: bool

subsection \<open>Transcript accumulator (\<open>App\<close>)\<close>

text \<open>
  \<^verbatim>\<open>setLiveText(prev => prev + (prev ? " " : "") + text)\<close>: a string is truthy when it is
  not empty. React applies queued updaters in the order of the calls. The updater only
  concatenates and tests for emptiness, so the code units of a fragment are any characters.
\<close>

definition liveText_updater :: "string \<Rightarrow> string \<Rightarrow> string" where
  "liveText_updater txt prev = prev @ (if prev \<noteq> [] then '' '' else []) @ txt"

definition handleLiveUpdate :: "string \<Rightarrow> world \<Rightarrow> world" where
  "handleLiveUpdate txt w = w\<lparr>liveText := liveText_updater txt (liveText w)\<rparr>"

definition handleLiveStart :: "world \<Rightarrow> world" where
  "handleLiveStart w = w\<lparr>liveText := []\<rparr>"

text \<open>
  The other handlers of \<open>App\<close> that write \<open>liveText\<close>. Of their other assignments the
  model keeps \<open>video\<close>, \<open>currentVideoIdRef\<close> and \<open>analysis.isLoading\<close>; mode, tier, history
  and the summary request do not touch the transcript. \<open>restoreHistoryItem\<close> rebuilds a
  \<open>VideoData\<close> from the history item; the model takes the rebuilt value.
\<close>

definition handleVideoSelect :: "VideoData \<Rightarrow> world \<Rightarrow> world" where
  "handleVideoSelect d w =
     (let w1 = w\<lparr>video := Some d, currentVideoIdRef := Some (video_id d)\<rparr>;
          w2 = (if sourceType d \<noteq> Record then w1\<lparr>liveText := []\<rparr> else w1)
      in w2\<lparr>isLoading := True\<rparr>)"

definition handleClear :: "world \<Rightarrow> world" where
  "handleClear w = w\<lparr>video := None, currentVideoIdRef := None, liveText := [], isLoading := False\<rparr>"

definition restoreHistoryItem :: "VideoData \<Rightarrow> world \<Rightarrow> world" where
  "restoreHistoryItem item w = w\<lparr>liveText := [], isLoading := False, video := Some item\<rparr>"

definition handleGenerate :: "world \<Rightarrow> world" where
  "handleGenerate w = (if video w = None then w else w\<lparr>isLoading := True\<rparr>)"

text \<open>The specification's closed form: the fragments joined by single spaces.\<close>

fun space_join :: "string list \<Rightarrow> string" where
  "space_join [] = []"
| "space_join [f] = f"
| "space_join (f # g # fs) = f @ '' '' @ space_join (g # fs)"

text \<open>A capture start followed by the delivery of the fragments, in order.\<close>

definition accumulate :: "string list \<Rightarrow> world \<Rightarrow> world" where
  "accumulate fs w = foldl (\<lambda>v f. handleLiveUpdate f v) (handleLiveStart w) fs"

subsection \<open>Promises and microtasks\<close>

definition promise_at :: "world \<Rightarrow> nat \<Rightarrow> promise_state option" where
  "promise_at w p = (if p < length (heap w) then Some (heap w ! p) else None)"

text \<open>
  \<open>promise.then(f)\<close>: on a pending promise the reaction is stored; on a settled one a job is
  queued, to run after the current handler returns.
\<close>

definition promise_then :: "nat \<Rightarrow> reaction \<Rightarrow> world \<Rightarrow> world" where
  "promise_then p r w =
     (case promise_at w p of
        Some (Pending rs) \<Rightarrow> w\<lparr>heap := (heap w)[p := Pending (rs @ [r])]\<rparr>
      | Some _ \<Rightarrow> w\<lparr>jobs := jobs w @ [(p, r)]\<rparr>
      | None \<Rightarrow> w)"

text \<open>
  Settling a pending promise queues its reactions in registration order. The handshake
  succeeding fulfils the promise with an open session; a failure rejects it.
\<close>

definition resolve :: "nat \<Rightarrow> world \<Rightarrow> world" where
  "resolve p w =
     (case promise_at w p of
        Some (Pending rs) \<Rightarrow> w\<lparr>heap := (heap w)[p := Fulfilled Open], jobs := jobs w @ map (Pair p) rs\<rparr>
      | _ \<Rightarrow> w)"

definition reject :: "nat \<Rightarrow> world \<Rightarrow> world" where
  "reject p w =
     (case promise_at w p of
        Some (Pending rs) \<Rightarrow> w\<lparr>heap := (heap w)[p := Rejected], jobs := jobs w @ map (Pair p) rs\<rparr>
      | _ \<Rightarrow> w)"

text \<open>
  Running a reaction job. On a fulfilled promise the callback is called with the session:
  the call is made whatever the status of the session (the class keeps no record of it). On
  a rejected promise the callback is skipped and the promise returned by \<open>then\<close> rejects
  with no handler.
\<close>

definition run_job :: "nat \<times> reaction \<Rightarrow> world \<Rightarrow> world" where
  "run_job j w =
     (case promise_at w (fst j) of
        Some (Fulfilled st) \<Rightarrow>
          (case snd j of
             SendRealtimeInput c \<Rightarrow> w\<lparr>trace := trace w @ [SendRealtimeInputCall (fst j) c]\<rparr>
           | CloseSession \<Rightarrow>
               w\<lparr>trace := trace w @ [SessionCloseCall (fst j)],
                 heap := (heap w)[fst j := Fulfilled Closed]\<rparr>)
      | Some Rejected \<Rightarrow> w\<lparr>trace := trace w @ [UnhandledRejection (fst j)]\<rparr>
      | _ \<Rightarrow> w)"

definition drain :: "world \<Rightarrow> world" where
  "drain w = foldl (\<lambda>v j. run_job j v) (w\<lparr>jobs := []\<rparr>) (jobs w)"

subsection \<open>\<open>LiveTranscriber\<close>\<close>

definition new_LiveTranscriber :: "world \<Rightarrow> world" where
  "new_LiveTranscriber w = w\<lparr>sessionPromise := None, inputAudioContext := False, scriptProcessor := False\<rparr>"

text \<open>
  \<open>connect\<close> up to its \<open>await\<close>: \<open>this.sessionPromise = ai.live.connect(...)\<close> stores a new
  pending promise. The function resumes when the promise settles (\<open>resolve\<close>, \<open>reject\<close>).
\<close>

definition connect :: "world \<Rightarrow> world" where
  "connect w =
     w\<lparr>sessionPromise := Some (length (heap w)),
       heap := heap w @ [Pending []],
       trace := trace w @ [LiveConnect (length (heap w))]\<rparr>"

text \<open>
  The \<open>onmessage\<close> callback. \<open>message.serverContent?.inputTranscription?.text\<close> is
  \<open>undefined\<close> when a link of the chain is missing; the test is truthiness, which an empty
  string fails too. The \<open>outputTranscription\<close> branch has an empty body. \<open>onUpdate\<close> is the
  \<open>handleLiveUpdate\<close> that \<open>App\<close> passes down.
\<close>

record Transcription =
  transcription_text :: "string option"

record ServerContent =
  inputTranscription :: "Transcription option"
  outputTranscription :: "Transcription option"

record LiveServerMessage =
  serverContent :: "ServerContent option"

definition inputTranscription_text :: "LiveServerMessage \<Rightarrow> string option" where
  "inputTranscription_text m =
     (case serverContent m of
        None \<Rightarrow> None
      | Some c \<Rightarrow> (case inputTranscription c of None \<Rightarrow> None | Some t \<Rightarrow> transcription_text t))"

definition onUpdate :: "string \<Rightarrow> world \<Rightarrow> world" where
  "onUpdate txt w = handleLiveUpdate txt (w\<lparr>trace := trace w @ [OnUpdate txt]\<rparr>)"

definition onmessage :: "LiveServerMessage \<Rightarrow> world \<Rightarrow> world" where
  "onmessage m w =
     (case inputTranscription_text m of
        Some txt \<Rightarrow> (if txt \<noteq> [] then onUpdate txt w else w)
      | None \<Rightarrow> w)"

text \<open>
  \<open>onerror\<close> and \<open>onclose\<close> only log: the instance keeps its promise, and the session the
  promise holds has changed status.
\<close>

definition session_event :: "nat \<Rightarrow> session_status \<Rightarrow> world \<Rightarrow> world" where
  "session_event p st w =
     (case promise_at w p of
        Some (Fulfilled _) \<Rightarrow> w\<lparr>heap := (heap w)[p := Fulfilled st]\<rparr>
      | _ \<Rightarrow> w)"

text \<open>
  \<open>start\<close> creates the audio context and the script processor and registers the audio
  callback. The callback encodes the block and, if the instance holds a promise, chains the
  send on it.
\<close>

definition start :: "world \<Rightarrow> world" where
  "start w =
     w\<lparr>inputAudioContext := True, scriptProcessor := True,
       trace := trace w @ [RegisterAudioCallback]\<rparr>"

definition onaudioprocess :: "number list \<Rightarrow> world \<Rightarrow> world" where
  "onaudioprocess inputData w =
     (let pcmBlob = createBlob inputData
      in case sessionPromise w of
           Some p \<Rightarrow> promise_then p (SendRealtimeInput pcmBlob) w
         | None \<Rightarrow> w)"

definition stop :: "world \<Rightarrow> world" where
  "stop w =
     (let w1 = (if scriptProcessor w
                then w\<lparr>trace := trace w @ [Disconnect], scriptProcessor := False\<rparr> else w);
          w2 = (if inputAudioContext w1
                then w1\<lparr>trace := trace w1 @ [ContextClose], inputAudioContext := False\<rparr> else w1)
      in case sessionPromise w2 of
           Some p \<Rightarrow> (promise_then p CloseSession w2)\<lparr>sessionPromise := None\<rparr>
         | None \<Rightarrow> w2)"

subsection \<open>The event loop\<close>

text \<open>
  One task runs a handler to completion and then the microtasks it queued. No handler of
  this code queues a microtask from a microtask.
\<close>

datatype event =
    AudioProcess "number list"
  | Message LiveServerMessage
  | Resolve nat
  | Reject nat
  | SessionError nat
  | SessionClosed nat
  | Stop

fun handler :: "event \<Rightarrow> world \<Rightarrow> world" where
  "handler (AudioProcess inputData) w = onaudioprocess inputData w"
| "handler (Message m) w = onmessage m w"
| "handler (Resolve p) w = resolve p w"
| "handler (Reject p) w = reject p w"
| "handler (SessionError p) w = session_event p Errored w"
| "handler (SessionClosed p) w = session_event p Closed w"
| "handler Stop w = stop w"

definition step :: "event \<Rightarrow> world \<Rightarrow> world" where
  "step e w = drain (handler e w)"

definition run :: "event list \<Rightarrow> world \<Rightarrow> world" where
  "run es w = foldl (\<lambda>v e. step e v) w es"

definition initial :: world where
  "initial =
     \<lparr>sessionPromise = None, inputAudioContext = False, scriptProcessor = False,
      heap = [], jobs = [], trace = [], liveText = [], video = None,
      currentVideoIdRef = None, isLoading = False, transcriberRef = False,
      uploaderError = None, isRecording = False, isLivePlayback = False\<rparr>"

text \<open>The state of the session an instance holds, in the specification's terms.\<close>

datatype session_state = Idle | Connecting | IsOpen | IsErrored | IsClosed

definition session_state_of :: "world \<Rightarrow> nat \<Rightarrow> session_state" where
  "session_state_of w p =
     (case promise_at w p of
        None \<Rightarrow> Idle
      | Some (Pending rs) \<Rightarrow> Connecting
      | Some (Fulfilled Open) \<Rightarrow> IsOpen
      | Some (Fulfilled Errored) \<Rightarrow> IsErrored
      | Some (Fulfilled Closed) \<Rightarrow> IsClosed
      | Some Rejected \<Rightarrow> IsErrored)"

text \<open>The fragments handed to \<open>onUpdate\<close>, read off a trace in the order of the calls.\<close>

fun updates :: "effect list \<Rightarrow> string list" where
  "updates [] = []"
| "updates (OnUpdate frag # es) = frag # updates es"
| "updates (e # es) = updates es"

text \<open>The effects a state transformer adds to the trace.\<close>

definition new_effects :: "world \<Rightarrow> world \<Rightarrow> effect list" where
  "new_effects w w' = drop (length (trace w)) (trace w')"

subsection \<open>Capture controls (\<open>VideoUploader\<close>)\<close>

text \<open>
  \<open>startLiveRecording\<close> and the start branch of \<open>toggleLivePlayback\<close> are asynchronous
  functions; what they await is decided outside the code, and given here: whether
  \<open>connect\<close> settles with a session or rejects, whether \<open>getUserMedia\<close> yields a stream,
  what the media element can capture. Both wrap their body in \<open>try\<close>/\<open>catch\<close>.
\<close>

datatype outcome = Fulfils | Rejects

datatype capture_support = CaptureStream | MozCaptureStream | NoCapture

record environment =
  onLiveUpdate_given :: bool
  onLiveStart_given :: bool
  connect_outcome :: outcome
  getUserMedia_outcome :: outcome
  videoRef_current :: bool
  capture :: capture_support
  audioTracks :: nat


text \<open>
  \<open>await transcriber.connect()\<close>: the synchronous part of \<open>connect\<close>, then the task in
  which the promise it stored settles.
\<close>

definition connect_awaited :: "environment \<Rightarrow> world \<Rightarrow> world" where
  "connect_awaited env w =
     (case connect_outcome env of
        Fulfils \<Rightarrow> step (Resolve (length (heap w))) (connect w)
      | Rejects \<Rightarrow> step (Reject (length (heap w))) (connect w))"

definition startLiveRecording :: "environment \<Rightarrow> world \<Rightarrow> world" where
  "startLiveRecording env w =
     (if \<not> onLiveUpdate_given env then w
      else
        let w1 = (if onLiveStart_given env then handleLiveStart w else w);
            w2 = connect_awaited env (new_LiveTranscriber w1)
        in case connect_outcome env of
             Rejects \<Rightarrow>
               w2\<lparr>uploaderError := Some ''Could not access microphone or connect to Live API.''\<rparr>
           | Fulfils \<Rightarrow>
               (case getUserMedia_outcome env of
                  Rejects \<Rightarrow>
                    w2\<lparr>uploaderError := Some ''Could not access microphone or connect to Live API.''\<rparr>
                | Fulfils \<Rightarrow> (start w2)\<lparr>transcriberRef := True, isRecording := True\<rparr>))"

definition toggleLivePlayback :: "environment \<Rightarrow> world \<Rightarrow> world" where
  "toggleLivePlayback env w =
     (if isLivePlayback w then
        (let w1 = (if transcriberRef w then (stop w)\<lparr>transcriberRef := False\<rparr> else w)
         in drain (w1\<lparr>isLivePlayback := False\<rparr>))
      else if \<not> videoRef_current env \<or> \<not> onLiveUpdate_given env then w
      else
        let w1 = (if onLiveStart_given env then handleLiveStart w else w);
            w2 = connect_awaited env (new_LiveTranscriber w1);
            failed = w2\<lparr>uploaderError := Some ''Could not start live analysis. Browser might restrict capturing media from this source.''\<rparr>
        in case connect_outcome env of
             Rejects \<Rightarrow> failed
           | Fulfils \<Rightarrow>
               (if capture env = NoCapture then failed
                else if audioTracks env = 0
                then w2\<lparr>uploaderError := Some ''No audio track found in media.''\<rparr>
                else (start w2)\<lparr>transcriberRef := True, isLivePlayback := True\<rparr>))"

section \<open>Properties of the encoder\<close>

subsection \<open>The loops in closed form\<close>

lemma createBlob_loop_data: "data (createBlob_loop l i b) = data b"
  by (induction l i b rule: createBlob_loop.induct) (simp add: createBlob_loop.simps)

lemma createBlob_loop_length: "length (int16 (createBlob_loop l i b)) = length (int16 b)"
  by (induction l i b rule: createBlob_loop.induct) (simp add: createBlob_loop.simps)

lemma createBlob_loop_nth:
  "k < length (int16 b) \<Longrightarrow>
   int16 (createBlob_loop l i b) ! k =
     (if i \<le> k \<and> k < l then ToInt16 (times_number (data b ! k) 32768) else int16 b ! k)"
proof (induction l i b rule: createBlob_loop.induct)
  case (1 l i b)
  show ?case
  proof (cases "i < l")
    case True
    have "k = i \<or> k < i \<or> Suc i \<le> k" by arith
    with True 1 show ?thesis
      by (subst createBlob_loop.simps) (auto simp: nth_list_update)
  next
    case False
    then show ?thesis by (subst createBlob_loop.simps) auto
  qed
qed

lemma createBlob_buffers_data: "data (createBlob_buffers d) = d"
  by (simp add: createBlob_buffers_def Let_def createBlob_loop_data)

lemma createBlob_buffers_int16:
  "int16 (createBlob_buffers d) = map (\<lambda>s. ToInt16 (times_number s 32768)) d"
  unfolding createBlob_buffers_def Let_def
  by (rule nth_equalityI) (simp_all add: createBlob_loop_length createBlob_loop_nth)

lemma encode_loop_eq:
  "len = length bytes \<Longrightarrow> i \<le> len \<Longrightarrow>
   encode_loop bytes len i binary = binary @ map fromCharCode (drop i bytes)"
proof (induction bytes len i binary rule: encode_loop.induct)
  case (1 bytes len i binary)
  show ?case
  proof (cases "i < len")
    case True
    with 1 show ?thesis
      by (subst encode_loop.simps) (simp add: Cons_nth_drop_Suc [symmetric])
  next
    case False
    with 1 show ?thesis by (subst encode_loop.simps) simp
  qed
qed

lemma encode_eq: "encode bytes = btoa (map fromCharCode bytes)"
  by (simp add: encode_def encode_loop_eq)

lemma createBlob_eq:
  "createBlob d =
     \<lparr>blob_data = btoa (map fromCharCode (Uint8Array_of_buffer
                      (map (\<lambda>s. ToInt16 (times_number s 32768)) d))),
      mimeType = ''audio/pcm;rate=16000''\<rparr>"
  by (simp add: createBlob_def createBlob_run_def Let_def createBlob_buffers_int16 encode_eq)

subsection \<open>Truncation and the 16-bit range\<close>

lemma js_truncate_error: "\<bar>real_of_int (js_truncate x) - x\<bar> < 1"
  unfolding js_truncate_def by (auto; linarith)

lemma js_truncate_range:
  "- 1 \<le> s \<Longrightarrow> s < 1 \<Longrightarrow> - 32768 \<le> js_truncate (s * 32768) \<and> js_truncate (s * 32768) < 32768"
  unfolding js_truncate_def by (auto simp: floor_less_iff le_floor_iff; linarith)

lemma sint_ToInt16: "sint (ToInt16 (Finite x)) = signed_take_bit 15 (js_truncate x)"
  by (simp add: sint_sbintrunc')

lemma sint_ToInt16_in_range:
  "- 1 \<le> s \<Longrightarrow> s < 1 \<Longrightarrow> sint (ToInt16 (Finite (s * 32768))) = js_truncate (s * 32768)"
  using js_truncate_range [of s] by (simp add: sint_sbintrunc' signed_take_bit_int_eq_self)

subsection \<open>Base64 and byte order are invertible\<close>

lemma index_of_nth: "distinct xs \<Longrightarrow> n < length xs \<Longrightarrow> index_of (xs ! n) xs = Some n"
proof (induction xs arbitrary: n)
  case Nil
  then show ?case by simp
next
  case (Cons x xs)
  then show ?case by (cases n) auto
qed

lemma distinct_b64_alphabet: "distinct b64_alphabet"
  unfolding b64_alphabet_def by simp

lemma length_b64_alphabet: "length b64_alphabet = 64"
  unfolding b64_alphabet_def by simp

lemma b64_index_char: "n < 64 \<Longrightarrow> b64_index (b64_char n) = Some n"
  unfolding b64_index_def b64_char_def
  by (rule index_of_nth [OF distinct_b64_alphabet]) (simp add: length_b64_alphabet)

lemma pad_not_in_alphabet: "CHR ''='' \<notin> set b64_alphabet"
  unfolding b64_alphabet_def by simp

lemma b64_char_not_pad: "n < 64 \<Longrightarrow> b64_char n \<noteq> CHR ''=''"
  unfolding b64_char_def using pad_not_in_alphabet nth_mem [of n b64_alphabet]
  by (metis length_b64_alphabet)

lemma b64_char_0: "b64_char 0 = CHR ''A''"
  by (simp add: b64_char_def b64_alphabet_def)

lemma div_mult_add: "b < c \<Longrightarrow> (a * c + b) div c = (a::nat)"
  by simp

lemma mod_mult_add: "b < c \<Longrightarrow> (a * c + b) mod c = (b::nat)"
  by simp

lemma decode_group_three:
  assumes "x < 256" "y < 256" "z < (256::nat)"
  shows "decode_group (b64_char (x div 4)) (b64_char ((x mod 4) * 16 + y div 16))
           (b64_char ((y mod 16) * 4 + z div 64)) (b64_char (z mod 64)) n
         = Some (take n [char_of x, char_of y, char_of z])"
proof -
  have x1: "x div 4 < 64" and y1: "y div 16 < 16" and z1: "z div 64 < 4"
    using assms by (simp_all add: less_mult_imp_div_less)
  have x0: "x mod 4 < 4" and y0: "y mod 16 < 16" and z0: "z mod 64 < 64"
    by simp_all
  have q: "(x mod 4) * 16 + y div 16 < 64" using x0 y1 by linarith
  have r: "(y mod 16) * 4 + z div 64 < 64" using y0 z1 by linarith
  have e1: "x div 4 * 4 + ((x mod 4) * 16 + y div 16) div 16 = x"
    by (simp only: div_mult_add [OF y1] div_mult_mod_eq)
  have e2: "(((x mod 4) * 16 + y div 16) mod 16) * 16 + ((y mod 16) * 4 + z div 64) div 4 = y"
    by (simp only: mod_mult_add [OF y1] div_mult_add [OF z1] div_mult_mod_eq)
  have e3: "(((y mod 16) * 4 + z div 64) mod 4) * 64 + z mod 64 = z"
    by (simp only: mod_mult_add [OF z1] div_mult_mod_eq)
  show ?thesis
    unfolding decode_group_def
    by (simp only: b64_index_char [OF x1] b64_index_char [OF q] b64_index_char [OF r]
        b64_index_char [OF z0] prod.case option.case e1 e2 e3)
qed

lemma decode_group_two:
  assumes "x < 256" "y < (256::nat)"
  shows "decode_group (b64_char (x div 4)) (b64_char ((x mod 4) * 16 + y div 16))
           (b64_char ((y mod 16) * 4)) CHR ''A'' 2
         = Some [char_of x, char_of y]"
  using decode_group_three [OF assms, of 0 2] by (simp add: b64_char_0)

lemma decode_group_one:
  assumes "x < (256::nat)"
  shows "decode_group (b64_char (x div 4)) (b64_char ((x mod 4) * 16)) CHR ''A'' CHR ''A'' 1
         = Some [char_of x]"
  using decode_group_three [OF assms, of 0 0 1] by (simp add: b64_char_0)

lemma of_char_bound: "(of_char (a::char) :: nat) < 256"
  by simp

lemma base64_decode_btoa: "base64_decode (btoa s) = Some s"
proof (induction s rule: btoa.induct)
  case 1
  show ?case by simp
next
  case (2 a)
  show ?case
    using decode_group_one [OF of_char_bound [of a]] by (simp add: Let_def)
next
  case (3 a b)
  have "(of_char b :: nat) mod 16 * 4 < 64"
    using mod_less_divisor [of 16 "of_char b"] by linarith
  then show ?case
    using decode_group_two [OF of_char_bound [of a] of_char_bound [of b]]
    by (simp add: Let_def b64_char_not_pad)
next
  case (4 a b c rest)
  have "b64_char (of_char c mod 64) \<noteq> CHR ''=''"
    by (rule b64_char_not_pad) simp
  then show ?case
    using decode_group_three [OF of_char_bound [of a] of_char_bound [of b] of_char_bound [of c], of 3] 4
    by (simp add: Let_def)
qed

lemma charCodeAt_fromCharCode: "charCodeAt (fromCharCode b) = b"
  using unsigned_less [of b, where ?'a = nat] by (simp add: charCodeAt_def fromCharCode_def)

lemma int16_bytes_inverse:
  "(ucast (ucast w :: 8 word) OR push_bit 8 (ucast (ucast (drop_bit 8 w) :: 8 word)) :: 16 word) = w"
  by (auto intro!: bit_word_eqI simp: bit_simps)

lemma int16_of_bytes_inverse: "int16_of_bytes (Uint8Array_of_buffer ws) = Some ws"
  unfolding Uint8Array_of_buffer_def
  by (induction ws) (simp_all add: int16_bytes_def int16_bytes_inverse)

lemma decode_chunk_createBlob:
  "decode_chunk (createBlob d) = Some (map (\<lambda>s. ToInt16 (times_number s 32768)) d)"
  by (simp add: decode_chunk_def createBlob_eq base64_decode_btoa comp_def
      charCodeAt_fromCharCode int16_of_bytes_inverse)

subsection \<open>The claims about the encoder\<close>

text \<open>
  C1, as stated, at a sample the microphone can deliver: \<open>3 / 131072\<close> is a single-precision
  value, its product with 32768 is \<open>0.75\<close>, which rounds to 1; the stored element is 0.
\<close>

theorem C1_rounding_counterexample:
  "sint (int16 (createBlob_buffers [Finite (3 / 131072)]) ! 0) \<noteq> round ((3 / 131072 :: real) * 32768)"
  by (simp add: createBlob_buffers_int16 sint_ToInt16 js_truncate_def round_def)

text \<open>
  C1, amended. Every finite sample \<open>s\<close> is stored as \<open>s * 32768\<close> truncated towards zero and
  wrapped to 16 bits in two's complement; nothing clamps it. For \<open>-1 \<le> s < 1\<close> the wrap is
  the identity and the element is the truncation itself.
\<close>

theorem C1_truncates_and_wraps:
  assumes "i < length d" and "d ! i = Finite s"
  shows "sint (int16 (createBlob_buffers d) ! i) = signed_take_bit 15 (js_truncate (s * 32768))
       \<and> (- 1 \<le> s \<and> s < 1 \<longrightarrow> sint (int16 (createBlob_buffers d) ! i) = js_truncate (s * 32768))"
  using assms sint_ToInt16_in_range [of s]
  by (simp add: createBlob_buffers_int16 sint_sbintrunc')

theorem C1_truncates_and_wraps_witness:
  "sint (int16 (createBlob_buffers [Finite 1]) ! 0) = - 32768
 \<and> sint (int16 (createBlob_buffers [Finite (- 3 / 4), Finite (3 / 131072)]) ! 1) = 0"
  using C1_truncates_and_wraps [of 0 "[Finite 1]" 1]
    C1_truncates_and_wraps [of 1 "[Finite (- 3 / 4), Finite (3 / 131072)]" "3 / 131072"]
  by (simp add: js_truncate_def)

text \<open>
  C4, as stated, at a buffer holding the sample 1.0, which is in the range: it scales to
  32768, one past the largest 16-bit value, and nothing clamps it; the stored integer is
  \<open>-32768\<close>, which decodes to \<open>-1.0\<close>, at distance 2 from the sample.
\<close>

theorem C4_full_scale_counterexample:
  "decode_chunk (createBlob [Finite 1]) = Some [- 32768]
 \<and> \<bar>real_of_int (sint (- 32768 :: 16 word)) / 32768 - 1\<bar> = 2"
  by (simp add: decode_chunk_createBlob js_truncate_def)

text \<open>
  C4, amended. For samples with \<open>-1 \<le> s < 1\<close>, decoding the chunk gives one 16-bit integer
  per sample, and that integer over 32768 is within one quantization step \<open>1 / 32768\<close> of
  the sample.
\<close>

theorem C4_round_trip:
  assumes "\<forall>s \<in> set samples. - 1 \<le> s \<and> s < 1"
  shows "\<exists>ws. decode_chunk (createBlob (map Finite samples)) = Some ws
             \<and> length ws = length samples
             \<and> (\<forall>i < length samples.
                   \<bar>real_of_int (sint (ws ! i)) / 32768 - samples ! i\<bar> < 1 / 32768)"
proof -
  let ?ws = "map (\<lambda>s. ToInt16 (times_number s 32768)) (map Finite samples)"
  have "\<bar>real_of_int (sint (?ws ! i)) / 32768 - samples ! i\<bar> < 1 / 32768"
    if "i < length samples" for i
  proof -
    from that assms have r: "- 1 \<le> samples ! i" "samples ! i < 1"
      by simp_all
    have "sint (?ws ! i) = js_truncate (samples ! i * 32768)"
      using that sint_ToInt16_in_range [OF r] by simp
    moreover have "\<bar>real_of_int (js_truncate (samples ! i * 32768)) - samples ! i * 32768\<bar> < 1"
      by (rule js_truncate_error)
    ultimately show ?thesis
      by (simp add: field_simps abs_less_iff)
  qed
  then show ?thesis
    by (simp add: decode_chunk_createBlob)
qed

theorem C4_round_trip_witness:
  "\<exists>ws. decode_chunk (createBlob (map Finite [1 / 2, - 1, 3 / 131072])) = Some ws
       \<and> length ws = length [1 / 2, - 1, 3 / 131072 :: real]
       \<and> (\<forall>i < length [1 / 2, - 1, 3 / 131072 :: real].
             \<bar>real_of_int (sint (ws ! i)) / 32768 - [1 / 2, - 1, 3 / 131072] ! i\<bar> < 1 / 32768)"
  by (rule C4_round_trip) simp

text \<open>
  C10. The chunk is a function of the contents of the input buffer alone, with the fixed
  MIME type, and the call leaves the input buffer as it was: equal buffers give equal chunks,
  and nothing but the buffer is read.
\<close>

theorem C10_encoder_pure:
  "createBlob_run d =
     (\<lparr>blob_data = btoa (map fromCharCode (concat (map int16_bytes
                       (map (\<lambda>s. ToInt16 (times_number s 32768)) d)))),
       mimeType = ''audio/pcm;rate=16000''\<rparr>, d)"
  using createBlob_eq [of d]
  by (simp add: createBlob_def createBlob_run_def Let_def createBlob_buffers_data
      Uint8Array_of_buffer_def prod_eq_iff)

section \<open>Properties of the transcript accumulator\<close>

lemma liveText_handleLiveUpdates:
  "liveText (foldl (\<lambda>v f. handleLiveUpdate f v) w fs) =
   foldl (\<lambda>prev f. liveText_updater f prev) (liveText w) fs"
  by (induction fs arbitrary: w) (simp_all add: handleLiveUpdate_def)

lemma liveText_accumulate:
  "liveText (accumulate fs w) = foldl (\<lambda>prev f. liveText_updater f prev) [] fs"
  by (simp add: accumulate_def liveText_handleLiveUpdates handleLiveStart_def)

lemma updater_empty: "liveText_updater f [] = f"
  by (simp add: liveText_updater_def)

lemma updater_from_nonempty:
  "prev \<noteq> [] \<Longrightarrow>
   foldl (\<lambda>prev f. liveText_updater f prev) prev fs = prev @ concat (map (\<lambda>f. '' '' @ f) fs)"
  by (induction fs arbitrary: prev) (simp_all add: liveText_updater_def)

lemma space_join_Cons: "space_join (f # fs) = f @ concat (map (\<lambda>g. '' '' @ g) fs)"
  by (induction fs arbitrary: f) simp_all

lemma updater_nonempty_fragments:
  "[] \<notin> set fs \<Longrightarrow> foldl (\<lambda>prev f. liveText_updater f prev) [] fs = space_join fs"
proof (cases fs)
  case Nil
  then show ?thesis by simp
next
  case (Cons f gs)
  assume "[] \<notin> set fs"
  with Cons have f: "f \<noteq> []" by auto
  have "foldl (\<lambda>prev f. liveText_updater f prev) [] (f # gs)
          = foldl (\<lambda>prev f. liveText_updater f prev) f gs"
    by (simp add: updater_empty)
  also have "\<dots> = f @ concat (map (\<lambda>f. '' '' @ f) gs)"
    using f by (rule updater_from_nonempty)
  also have "\<dots> = space_join (f # gs)"
    by (simp only: space_join_Cons)
  finally show ?thesis using Cons by simp
qed

section \<open>Properties of the live transcriber and the controls\<close>

subsection \<open>What microtasks leave alone\<close>

lemma run_job_frame:
  "liveText (run_job j w) = liveText w"
  "sessionPromise (run_job j w) = sessionPromise w"
  "inputAudioContext (run_job j w) = inputAudioContext w"
  "scriptProcessor (run_job j w) = scriptProcessor w"
  "jobs (run_job j w) = jobs w"
  "transcriberRef (run_job j w) = transcriberRef w"
  "uploaderError (run_job j w) = uploaderError w"
  "isRecording (run_job j w) = isRecording w"
  "isLivePlayback (run_job j w) = isLivePlayback w"
  by (simp_all add: run_job_def split: option.splits promise_state.splits reaction.splits)

lemma run_jobs_frame:
  "liveText (foldl (\<lambda>v j. run_job j v) w js) = liveText w"
  "sessionPromise (foldl (\<lambda>v j. run_job j v) w js) = sessionPromise w"
  "inputAudioContext (foldl (\<lambda>v j. run_job j v) w js) = inputAudioContext w"
  "scriptProcessor (foldl (\<lambda>v j. run_job j v) w js) = scriptProcessor w"
  "jobs (foldl (\<lambda>v j. run_job j v) w js) = jobs w"
  "transcriberRef (foldl (\<lambda>v j. run_job j v) w js) = transcriberRef w"
  "uploaderError (foldl (\<lambda>v j. run_job j v) w js) = uploaderError w"
  "isRecording (foldl (\<lambda>v j. run_job j v) w js) = isRecording w"
  "isLivePlayback (foldl (\<lambda>v j. run_job j v) w js) = isLivePlayback w"
  by (induction js arbitrary: w) (simp_all add: run_job_frame)

lemma drain_frame:
  "liveText (drain w) = liveText w"
  "sessionPromise (drain w) = sessionPromise w"
  "inputAudioContext (drain w) = inputAudioContext w"
  "scriptProcessor (drain w) = scriptProcessor w"
  "jobs (drain w) = []"
  "transcriberRef (drain w) = transcriberRef w"
  "uploaderError (drain w) = uploaderError w"
  "isRecording (drain w) = isRecording w"
  "isLivePlayback (drain w) = isLivePlayback w"
  by (simp_all add: drain_def run_jobs_frame)

lemma drain_no_jobs: "jobs w = [] \<Longrightarrow> drain w = w"
  by (simp add: drain_def)

lemma promise_then_liveText: "liveText (promise_then p r w) = liveText w"
  by (simp add: promise_then_def split: option.splits promise_state.splits)

lemma run_job_fulfilled:
  "promise_at w p = Some (Fulfilled st) \<Longrightarrow> \<exists>st'. promise_at (run_job j w) p = Some (Fulfilled st')"
  by (auto simp: run_job_def promise_at_def nth_list_update
      split: option.splits promise_state.splits reaction.splits if_splits)

lemma run_jobs_fulfilled:
  "promise_at w p = Some (Fulfilled st) \<Longrightarrow>
   \<exists>st'. promise_at (foldl (\<lambda>v j. run_job j v) w js) p = Some (Fulfilled st')"
proof (induction js arbitrary: w st)
  case Nil
  then show ?case by simp
next
  case (Cons j js)
  from run_job_fulfilled [OF Cons.prems] obtain st' where
    "promise_at (run_job j w) p = Some (Fulfilled st')" by blast
  from Cons.IH [OF this] show ?case by simp
qed

lemma run_job_close:
  "promise_at w p = Some (Fulfilled st) \<Longrightarrow>
   session_state_of (run_job (p, CloseSession) w) p = IsClosed"
  by (auto simp: run_job_def promise_at_def session_state_of_def split: if_splits)

subsection \<open>\<open>stop\<close>\<close>

lemma stop_fields:
  "sessionPromise (stop w) = None"
  "\<not> scriptProcessor (stop w)"
  "\<not> inputAudioContext (stop w)"
  by (simp_all add: stop_def Let_def promise_then_def
      split: option.splits promise_state.splits)

lemma stop_released:
  "sessionPromise w = None \<Longrightarrow> \<not> scriptProcessor w \<Longrightarrow> \<not> inputAudioContext w \<Longrightarrow> stop w = w"
  by (simp add: stop_def)

lemma step_Stop_again: "step Stop (step Stop w) = step Stop w"
proof -
  let ?v = "drain (stop w)"
  have "stop ?v = ?v"
    by (rule stop_released) (simp_all add: drain_frame stop_fields)
  moreover have "drain ?v = ?v"
    by (rule drain_no_jobs) (simp add: drain_frame)
  ultimately show ?thesis by (simp add: step_def)
qed

lemma stop_jobs_fulfilled:
  assumes "sessionPromise w = Some p" and "promise_at w p = Some (Fulfilled st)"
  shows "jobs (stop w) = jobs w @ [(p, CloseSession)]" and "promise_at (stop w) p = Some (Fulfilled st)"
  using assms by (simp_all add: stop_def Let_def promise_then_def promise_at_def split: if_splits)

lemma step_Stop_closes:
  assumes "sessionPromise w = Some p" and "promise_at w p = Some (Fulfilled st)"
  shows "session_state_of (step Stop w) p = IsClosed"
proof -
  have "promise_at ((stop w)\<lparr>jobs := []\<rparr>) p = Some (Fulfilled st)"
    using stop_jobs_fulfilled(2) [OF assms] by (simp add: promise_at_def split: if_splits)
  from run_jobs_fulfilled [OF this, of "jobs w"] obtain st' where
    "promise_at (foldl (\<lambda>v j. run_job j v) ((stop w)\<lparr>jobs := []\<rparr>) (jobs w)) p = Some (Fulfilled st')"
    by blast
  from run_job_close [OF this] show ?thesis
    by (simp add: step_def drain_def stop_jobs_fulfilled(1) [OF assms])
qed


lemmas world_defs =
  initial_def connect_def start_def stop_def step_def run_def drain_def run_job_def
  promise_then_def promise_at_def resolve_def reject_def session_event_def onaudioprocess_def
  session_state_of_def new_effects_def Let_def


lemma stop_liveText: "liveText (stop w) = liveText w"
  by (simp add: stop_def Let_def promise_then_liveText split: option.splits)

lemma onaudioprocess_liveText: "liveText (onaudioprocess d w) = liveText w"
  by (simp add: onaudioprocess_def Let_def promise_then_liveText split: option.splits)

lemma handler_liveText_appends: "\<exists>sfx. liveText (handler e w) = liveText w @ sfx"
proof (cases e)
  case (Message m)
  then show ?thesis
    by (simp add: onmessage_def onUpdate_def handleLiveUpdate_def liveText_updater_def
        split: option.splits)
qed (simp_all add: onaudioprocess_liveText stop_liveText resolve_def reject_def
      session_event_def split: option.splits promise_state.splits)

lemma step_liveText_appends: "\<exists>sfx. liveText (step e w) = liveText w @ sfx"
  using handler_liveText_appends [of e w] by (simp add: step_def drain_frame)

lemma connect_awaited_frame:
  "liveText (connect_awaited env w) = liveText w"
  "scriptProcessor (connect_awaited env w) = scriptProcessor w"
  "inputAudioContext (connect_awaited env w) = inputAudioContext w"
  "transcriberRef (connect_awaited env w) = transcriberRef w"
  "isRecording (connect_awaited env w) = isRecording w"
  "isLivePlayback (connect_awaited env w) = isLivePlayback w"
  by (simp_all add: connect_awaited_def connect_def step_def drain_frame resolve_def reject_def
      promise_at_def split: outcome.splits)

lemma connect_awaited_rejected:
  assumes "connect_outcome env = Rejects" and "jobs w = []"
  shows "new_effects w (connect_awaited env w) = [LiveConnect (length (heap w))]"
  using assms
  by (simp add: connect_awaited_def connect_def step_def reject_def promise_at_def drain_def
      new_effects_def)

subsection \<open>The claims about sending\<close>





subsection \<open>The claims about \<open>stop\<close>\<close>

text \<open>
  C5. \<open>stop\<close> has no failing branch: each call on a field is guarded by the test that the
  field is not null. A second \<open>stop\<close> finds the three fields null and changes nothing, and
  after \<open>stop\<close> the instance holds no session. If the promise it held was fulfilled, the
  session has been closed.
\<close>

theorem C5_stop_twice:
  "step Stop (step Stop w) = step Stop w
 \<and> sessionPromise (step Stop w) = None
 \<and> (sessionPromise w = Some p \<and> promise_at w p = Some (Fulfilled st) \<longrightarrow>
      session_state_of (step Stop (step Stop w)) p = IsClosed)"
  by (simp add: step_Stop_again step_Stop_closes)
    (simp add: step_def drain_frame stop_fields)

theorem C5_stop_twice_witness:
  "session_state_of (step (Resolve 0) (start (connect initial))) 0 = IsOpen
 \<and> session_state_of (step Stop (step Stop (step (Resolve 0) (start (connect initial))))) 0 = IsClosed
 \<and> step Stop (step Stop (step (Resolve 0) (start (connect initial))))
     = step Stop (step (Resolve 0) (start (connect initial)))"
proof -
  have a: "sessionPromise (step (Resolve 0) (start (connect initial))) = Some 0
         \<and> promise_at (step (Resolve 0) (start (connect initial))) 0 = Some (Fulfilled Open)"
    by (simp add: world_defs)
  then have b: "session_state_of (step (Resolve 0) (start (connect initial))) 0 = IsOpen"
    by (simp add: session_state_of_def)
  from a b C5_stop_twice [where w = "step (Resolve 0) (start (connect initial))" and p = 0
      and st = Open]
  show ?thesis by blast
qed



subsection \<open>The claims about starting a capture and receiving\<close>

text \<open>
  C7. When \<open>connect\<close> rejects, \<open>startLiveRecording\<close> and the start branch of
  \<open>toggleLivePlayback\<close> end in their \<open>catch\<close>: the error message is set, \<open>start\<close> has not
  run (no audio context, no script processor, no audio callback registered), the only
  effect is the connection attempt, and nothing is recorded as capturing.
\<close>

theorem C7_connect_rejected:
  assumes "connect_outcome env = Rejects" and "onLiveUpdate_given env" and "jobs w = []"
  shows "uploaderError (startLiveRecording env w)
           = Some ''Could not access microphone or connect to Live API.''
       \<and> new_effects w (startLiveRecording env w) = [LiveConnect (length (heap w))]
       \<and> \<not> scriptProcessor (startLiveRecording env w)
       \<and> \<not> inputAudioContext (startLiveRecording env w)
       \<and> transcriberRef (startLiveRecording env w) = transcriberRef w
       \<and> isRecording (startLiveRecording env w) = isRecording w
       \<and> (\<not> isLivePlayback w \<and> videoRef_current env \<longrightarrow>
            uploaderError (toggleLivePlayback env w)
              = Some ''Could not start live analysis. Browser might restrict capturing media from this source.''
            \<and> new_effects w (toggleLivePlayback env w) = [LiveConnect (length (heap w))]
            \<and> \<not> scriptProcessor (toggleLivePlayback env w)
            \<and> \<not> inputAudioContext (toggleLivePlayback env w)
            \<and> transcriberRef (toggleLivePlayback env w) = transcriberRef w
            \<and> isLivePlayback (toggleLivePlayback env w) = isLivePlayback w)"
proof -
  have e: "new_effects w (connect_awaited env (new_LiveTranscriber (handleLiveStart w)))
             = [LiveConnect (length (heap w))]"
    "new_effects w (connect_awaited env (new_LiveTranscriber w)) = [LiveConnect (length (heap w))]"
    using connect_awaited_rejected [OF assms(1), of "new_LiveTranscriber (handleLiveStart w)"]
      connect_awaited_rejected [OF assms(1), of "new_LiveTranscriber w"] assms(3)
    by (simp_all add: new_effects_def new_LiveTranscriber_def handleLiveStart_def)
  show ?thesis
    using assms e
    by (simp add: startLiveRecording_def toggleLivePlayback_def Let_def connect_awaited_frame
        new_effects_def new_LiveTranscriber_def handleLiveStart_def)
qed

theorem C7_connect_rejected_witness:
  "new_effects initial
     (startLiveRecording \<lparr>onLiveUpdate_given = True, onLiveStart_given = True,
        connect_outcome = Rejects, getUserMedia_outcome = Fulfils, videoRef_current = True,
        capture = CaptureStream, audioTracks = 1\<rparr> initial) = [LiveConnect 0]
 \<and> uploaderError
     (startLiveRecording \<lparr>onLiveUpdate_given = True, onLiveStart_given = True,
        connect_outcome = Rejects, getUserMedia_outcome = Fulfils, videoRef_current = True,
        capture = CaptureStream, audioTracks = 1\<rparr> initial)
     = Some ''Could not access microphone or connect to Live API.''
 \<and> new_effects initial
     (toggleLivePlayback \<lparr>onLiveUpdate_given = True, onLiveStart_given = True,
        connect_outcome = Rejects, getUserMedia_outcome = Fulfils, videoRef_current = True,
        capture = CaptureStream, audioTracks = 1\<rparr> initial) = [LiveConnect 0]"
  using C7_connect_rejected [where w = initial and env = "\<lparr>onLiveUpdate_given = True, onLiveStart_given = True,
        connect_outcome = Rejects, getUserMedia_outcome = Fulfils, videoRef_current = True,
        capture = CaptureStream, audioTracks = 1\<rparr>"]
  by (simp add: initial_def)

lemma updates_append: "updates (xs @ ys) = updates xs @ updates ys"
  by (induction xs rule: updates.induct) simp_all

lemma run_job_trace: "\<exists>es. trace (run_job j v) = trace v @ es \<and> updates es = []"
  by (simp add: run_job_def split: option.splits promise_state.splits reaction.splits)

lemma run_jobs_trace:
  "\<exists>es. trace (foldl (\<lambda>v j. run_job j v) v js) = trace v @ es \<and> updates es = []"
proof (induction js arbitrary: v)
  case Nil
  show ?case by simp
next
  case (Cons j js)
  from run_job_trace [of j v] obtain es where
    es: "trace (run_job j v) = trace v @ es" "updates es = []" by blast
  from Cons [of "run_job j v"] obtain es' where
    es': "trace (foldl (\<lambda>v j. run_job j v) (run_job j v) js) = trace (run_job j v) @ es'"
      "updates es' = []" by blast
  from es es' have "trace (foldl (\<lambda>v j. run_job j v) v (j # js)) = trace v @ (es @ es')
      \<and> updates (es @ es') = []"
    by (simp add: updates_append)
  then show ?case by blast
qed

lemma drain_trace: "\<exists>es. trace (drain v) = trace v @ es \<and> updates es = []"
  using run_jobs_trace [of "v\<lparr>jobs := []\<rparr>" "jobs v"] by (simp add: drain_def)

lemma onmessage_delivers:
  "\<exists>es. trace (onmessage m v) = trace v @ es
      \<and> liveText (onmessage m v) = foldl (\<lambda>prev f. liveText_updater f prev) (liveText v) (updates es)
      \<and> [] \<notin> set (updates es)"
  by (simp add: onmessage_def onUpdate_def handleLiveUpdate_def split: option.splits)

lemma step_Message_delivers:
  "\<exists>es. trace (step (Message m) v) = trace v @ es
      \<and> liveText (step (Message m) v)
          = foldl (\<lambda>prev f. liveText_updater f prev) (liveText v) (updates es)
      \<and> [] \<notin> set (updates es)"
proof -
  from onmessage_delivers [of m v] obtain es where
    es: "trace (onmessage m v) = trace v @ es"
      "liveText (onmessage m v) = foldl (\<lambda>prev f. liveText_updater f prev) (liveText v) (updates es)"
      "[] \<notin> set (updates es)" by blast
  from drain_trace [of "onmessage m v"] obtain es' where
    es': "trace (drain (onmessage m v)) = trace (onmessage m v) @ es'" "updates es' = []" by blast
  from es es' have "trace (step (Message m) v) = trace v @ (es @ es')
      \<and> liveText (step (Message m) v)
          = foldl (\<lambda>prev f. liveText_updater f prev) (liveText v) (updates (es @ es'))
      \<and> [] \<notin> set (updates (es @ es'))"
    by (simp add: step_def drain_frame updates_append)
  then show ?thesis by blast
qed

lemma run_Messages_deliver:
  "\<exists>es. trace (run (map Message ms) v) = trace v @ es
      \<and> liveText (run (map Message ms) v)
          = foldl (\<lambda>prev f. liveText_updater f prev) (liveText v) (updates es)
      \<and> [] \<notin> set (updates es)"
proof (induction ms arbitrary: v)
  case Nil
  show ?case by (simp add: run_def)
next
  case (Cons m ms)
  from step_Message_delivers [of m v] obtain es where
    es: "trace (step (Message m) v) = trace v @ es"
      "liveText (step (Message m) v)
         = foldl (\<lambda>prev f. liveText_updater f prev) (liveText v) (updates es)"
      "[] \<notin> set (updates es)" by blast
  from Cons [of "step (Message m) v"] obtain es' where
    es': "trace (run (map Message ms) (step (Message m) v)) = trace (step (Message m) v) @ es'"
      "liveText (run (map Message ms) (step (Message m) v))
         = foldl (\<lambda>prev f. liveText_updater f prev) (liveText (step (Message m) v)) (updates es')"
      "[] \<notin> set (updates es')" by blast
  have r: "run (Message m # map Message ms) v = run (map Message ms) (step (Message m) v)"
    by (simp add: run_def)
  from es es' have "trace (run (map Message (m # ms)) v) = trace v @ (es @ es')
      \<and> liveText (run (map Message (m # ms)) v)
          = foldl (\<lambda>prev f. liveText_updater f prev) (liveText v) (updates (es @ es'))
      \<and> [] \<notin> set (updates (es @ es'))"
    by (simp add: r updates_append)
  then show ?case by blast
qed

text \<open>
  C2. After a capture start, whatever messages the session then receives, the transcript is
  the space-joined concatenation of the fragments handed to \<open>onUpdate\<close>, in order, and the
  empty string when there is none. The guard of \<open>onmessage\<close> hands over no empty fragment;
  and fragments that are not empty, delivered after a reset, accumulate to their
  space-joined concatenation.
\<close>

theorem C2_delivered_space_joined:
  "liveText (run (map Message ms) (handleLiveStart w))
     = space_join (updates (new_effects (handleLiveStart w)
                              (run (map Message ms) (handleLiveStart w))))
 \<and> [] \<notin> set (updates (new_effects (handleLiveStart w)
                         (run (map Message ms) (handleLiveStart w))))
 \<and> ([] \<notin> set fs \<longrightarrow> liveText (accumulate fs w) = space_join fs)"
proof -
  from run_Messages_deliver [of ms "handleLiveStart w"] obtain es where
    es: "trace (run (map Message ms) (handleLiveStart w)) = trace (handleLiveStart w) @ es"
      "liveText (run (map Message ms) (handleLiveStart w))
         = foldl (\<lambda>prev f. liveText_updater f prev) (liveText (handleLiveStart w)) (updates es)"
      "[] \<notin> set (updates es)" by blast
  have n: "new_effects (handleLiveStart w) (run (map Message ms) (handleLiveStart w)) = es"
    by (simp add: new_effects_def es(1))
  have "liveText (handleLiveStart w) = []"
    by (simp add: handleLiveStart_def)
  with es(2,3) have "liveText (run (map Message ms) (handleLiveStart w)) = space_join (updates es)"
    by (simp add: updater_nonempty_fragments)
  with n es(3) show ?thesis
    by (simp add: liveText_accumulate updater_nonempty_fragments)
qed

theorem C2_delivered_space_joined_witness:
  "liveText (run (map Message
       [\<lparr>serverContent = Some \<lparr>inputTranscription = Some \<lparr>transcription_text = Some ''The quick''\<rparr>,
                              outputTranscription = None\<rparr>\<rparr>,
        \<lparr>serverContent = Some \<lparr>inputTranscription = Some \<lparr>transcription_text = Some []\<rparr>,
                              outputTranscription = None\<rparr>\<rparr>,
        \<lparr>serverContent = Some \<lparr>inputTranscription = Some \<lparr>transcription_text = Some ''brown fox''\<rparr>,
                              outputTranscription = None\<rparr>\<rparr>])
     (handleLiveStart initial)) = ''The quick brown fox''
 \<and> liveText (run (map Message []) (handleLiveStart initial)) = []
 \<and> liveText (accumulate [''hello''] initial) = ''hello''"
  using C2_delivered_space_joined [where w = initial and fs = "[''hello'']" and ms =
       "[\<lparr>serverContent = Some \<lparr>inputTranscription = Some \<lparr>transcription_text = Some ''The quick''\<rparr>,
                              outputTranscription = None\<rparr>\<rparr>,
        \<lparr>serverContent = Some \<lparr>inputTranscription = Some \<lparr>transcription_text = Some []\<rparr>,
                              outputTranscription = None\<rparr>\<rparr>,
        \<lparr>serverContent = Some \<lparr>inputTranscription = Some \<lparr>transcription_text = Some ''brown fox''\<rparr>,
                              outputTranscription = None\<rparr>\<rparr>]"]
    C2_delivered_space_joined [where w = initial and fs = "[]" and ms = "[]"]
  by (simp add: handleLiveStart_def onmessage_def onUpdate_def handleLiveUpdate_def
      inputTranscription_text_def world_defs)

text \<open>
  C8, as stated, at a message whose \<open>inputTranscription.text\<close> is the empty string: the
  field is there, and \<open>onUpdate\<close> is not called.
\<close>

theorem C8_empty_text_counterexample:
  "inputTranscription_text
     \<lparr>serverContent = Some \<lparr>inputTranscription = Some \<lparr>transcription_text = Some []\<rparr>,
                            outputTranscription = None\<rparr>\<rparr> = Some []
 \<and> new_effects initial
     (onmessage \<lparr>serverContent = Some \<lparr>inputTranscription = Some \<lparr>transcription_text = Some []\<rparr>,
                                      outputTranscription = None\<rparr>\<rparr> initial) = []"
  by (simp add: inputTranscription_text_def onmessage_def new_effects_def)

text \<open>
  C8, amended. A message whose \<open>inputTranscription.text\<close> is a non-empty string calls
  \<open>onUpdate\<close> once, with that string, and the transcript is updated with it; a message
  without the field, or with the empty string, changes nothing.
\<close>

theorem C8_one_update_per_text:
  "(inputTranscription_text m = Some frag \<and> frag \<noteq> [] \<longrightarrow>
      new_effects w (onmessage m w) = [OnUpdate frag]
      \<and> liveText (onmessage m w) = liveText_updater frag (liveText w))
 \<and> (inputTranscription_text m = None \<or> inputTranscription_text m = Some [] \<longrightarrow>
      onmessage m w = w)"
  by (auto simp: onmessage_def onUpdate_def handleLiveUpdate_def new_effects_def)

theorem C8_one_update_per_text_witness:
  "new_effects (handleLiveUpdate ''The quick'' initial)
     (onmessage \<lparr>serverContent = Some \<lparr>inputTranscription = Some \<lparr>transcription_text = Some ''brown fox''\<rparr>,
                                      outputTranscription = None\<rparr>\<rparr>
        (handleLiveUpdate ''The quick'' initial)) = [OnUpdate ''brown fox'']
 \<and> onmessage \<lparr>serverContent = None\<rparr> initial = initial"
  using C8_one_update_per_text [where m = "\<lparr>serverContent = Some \<lparr>inputTranscription = Some \<lparr>transcription_text = Some ''brown fox''\<rparr>,
                                      outputTranscription = None\<rparr>\<rparr>" and frag = "''brown fox''"
        and w = "handleLiveUpdate ''The quick'' initial"]
    C8_one_update_per_text [where m = "\<lparr>serverContent = None\<rparr>" and w = initial]
  by (simp add: inputTranscription_text_def)

text \<open>
  C9, as stated, after a capture has delivered a fragment: \<open>handleClear\<close> and
  \<open>restoreHistoryItem\<close> each clear the transcript, and neither starts a capture.
\<close>

theorem C9_cleared_elsewhere_counterexample:
  "liveText (accumulate [''a''] initial) = ''a''
 \<and> liveText (handleClear (accumulate [''a''] initial)) = []
 \<and> liveText (restoreHistoryItem \<lparr>video_id = ''h'', sourceType = Youtube\<rparr> (accumulate [''a''] initial)) = []"
  by (simp add: liveText_accumulate liveText_updater_def handleClear_def restoreHistoryItem_def)

text \<open>
  C9, amended. The transcript is emptied by \<open>handleLiveStart\<close>, which both ways of starting
  a capture call first when the callbacks are passed (as \<open>App\<close> passes them), and also by
  \<open>handleClear\<close>, by \<open>restoreHistoryItem\<close> and by \<open>handleVideoSelect\<close> of a medium whose
  source type is not \<open>record\<close>. \<open>handleLiveUpdate\<close> appends; \<open>handleVideoSelect\<close> of a
  recording, \<open>handleGenerate\<close> and every event of the transcriber leave what is there and at
  most append to it.
\<close>

theorem C9_where_liveText_is_cleared:
  "liveText (handleLiveStart w) = []
 \<and> liveText (startLiveRecording env w)
     = (if onLiveUpdate_given env \<and> onLiveStart_given env then [] else liveText w)
 \<and> liveText (toggleLivePlayback env w)
     = (if \<not> isLivePlayback w \<and> videoRef_current env \<and> onLiveUpdate_given env \<and> onLiveStart_given env
        then [] else liveText w)
 \<and> liveText (handleClear w) = []
 \<and> liveText (restoreHistoryItem item w) = []
 \<and> liveText (handleVideoSelect d w) = (if sourceType d = Record then liveText w else [])
 \<and> liveText (handleLiveUpdate frag w) = liveText w @ (if liveText w \<noteq> [] then '' '' else []) @ frag
 \<and> liveText (handleGenerate w) = liveText w
 \<and> (\<exists>sfx. liveText (step e w) = liveText w @ sfx)"
proof -
  have "liveText (startLiveRecording env w)
          = (if onLiveUpdate_given env \<and> onLiveStart_given env then [] else liveText w)"
    by (simp add: startLiveRecording_def Let_def connect_awaited_frame start_def
        new_LiveTranscriber_def handleLiveStart_def split: outcome.splits)
  moreover have "liveText (toggleLivePlayback env w)
     = (if \<not> isLivePlayback w \<and> videoRef_current env \<and> onLiveUpdate_given env \<and> onLiveStart_given env
        then [] else liveText w)"
    by (simp add: toggleLivePlayback_def Let_def connect_awaited_frame start_def drain_frame
        stop_liveText new_LiveTranscriber_def handleLiveStart_def split: outcome.splits)
  ultimately show ?thesis
    using step_liveText_appends [of e w]
    by (simp add: handleLiveStart_def handleClear_def restoreHistoryItem_def
        handleVideoSelect_def Let_def handleLiveUpdate_def liveText_updater_def
        handleGenerate_def)
qed

theorem C9_where_liveText_is_cleared_witness:
  "liveText (handleVideoSelect \<lparr>video_id = ''r'', sourceType = Record\<rparr> (accumulate [''a''] initial)) = ''a''
 \<and> liveText (handleLiveUpdate ''b'' (accumulate [''a''] initial)) = ''a b''
 \<and> liveText (handleLiveStart (accumulate [''a''] initial)) = []"
  using C9_where_liveText_is_cleared [where w = "accumulate [''a''] initial"
      and d = "\<lparr>video_id = ''r'', sourceType = Record\<rparr>" and frag = "''b''" and e = Stop]
  by (simp add: liveText_accumulate liveText_updater_def)

end
